theory Spec2Isabelle
  imports Main "HOL-Library.Sublist"
begin

section \<open>JavaScript string primitives used by the service\<close>

text \<open>
  Strings are lists of code units; a \<^typ>\<open>char\<close> stands for a code unit below 256.
  Indices are JavaScript numbers restricted to integers, so \<open>indexOf\<close> and
  \<open>lastIndexOf\<close> return \<open>-1\<close> when nothing is found.
\<close>

definition isWhiteSpace :: "char \<Rightarrow> bool" where
  \<comment> \<open>What \<open>String.prototype.trim\<close> removes: TAB, LF, VT, FF, CR, SP, NBSP.\<close>
  "isWhiteSpace c \<longleftrightarrow> c \<in> {CHR 0x09, CHR 0x0A, CHR 0x0B, CHR 0x0C, CHR 0x0D, CHR 0x20, CHR 0xA0}"

definition trim :: "string \<Rightarrow> string" where
  "trim s = rev (dropWhile isWhiteSpace (rev (dropWhile isWhiteSpace s)))"

definition startsWith :: "string \<Rightarrow> string \<Rightarrow> bool" where
  "startsWith s p \<longleftrightarrow> take (length p) s = p"

definition endsWith :: "string \<Rightarrow> string \<Rightarrow> bool" where
  "endsWith s p \<longleftrightarrow> length p \<le> length s \<and> drop (length s - length p) s = p"

fun includesStr :: "string \<Rightarrow> string \<Rightarrow> bool" where
  "includesStr [] p \<longleftrightarrow> p = []"
| "includesStr (c # cs) p \<longleftrightarrow> startsWith (c # cs) p \<or> includesStr cs p"

definition relIndex :: "nat \<Rightarrow> int \<Rightarrow> nat" where
  \<comment> \<open>A relative index of \<open>slice\<close>: negative counts from the end, then clamp to \<open>[0, len]\<close>.\<close>
  "relIndex len i = (if i < 0 then nat (max (int len + i) 0) else min (nat i) len)"

definition slice :: "string \<Rightarrow> int \<Rightarrow> int option \<Rightarrow> string" where
  \<comment> \<open>\<open>s.slice(start, end)\<close>; \<open>None\<close> is an \<open>undefined\<close> end.\<close>
  "slice s start end =
     (let len = length s;
          from = relIndex len start;
          to = (case end of None \<Rightarrow> len | Some e \<Rightarrow> relIndex len e)
      in take (to - from) (drop from s))"

definition substring :: "string \<Rightarrow> int \<Rightarrow> int \<Rightarrow> string" where
  \<comment> \<open>\<open>s.substring(a, b)\<close>: both ends clamped to \<open>[0, len]\<close>, swapped when \<open>a > b\<close>.\<close>
  "substring s a b =
     (let len = length s;
          a' = min (nat (max a 0)) len;
          b' = min (nat (max b 0)) len;
          lo = min a' b'; hi = max a' b'
      in take (hi - lo) (drop lo s))"

fun indexFrom :: "char \<Rightarrow> string \<Rightarrow> nat \<Rightarrow> int" where
  "indexFrom c [] i = - 1"
| "indexFrom c (x # xs) i = (if x = c then int i else indexFrom c xs (Suc i))"

definition indexOf :: "string \<Rightarrow> char \<Rightarrow> int" where
  "indexOf s c = indexFrom c s 0"

fun lastIndexFrom :: "char \<Rightarrow> string \<Rightarrow> nat \<Rightarrow> int \<Rightarrow> int" where
  "lastIndexFrom c [] i found = found"
| "lastIndexFrom c (x # xs) i found = lastIndexFrom c xs (Suc i) (if x = c then int i else found)"

definition lastIndexOf :: "string \<Rightarrow> char \<Rightarrow> int" where
  "lastIndexOf s c = lastIndexFrom c s 0 (- 1)"

section \<open>JSON values and \<open>JSON.parse\<close>\<close>

text \<open>
  \<open>JSON.parse\<close> is the ECMAScript built-in; it is modelled by the JSON grammar
  (ECMA-404): a lexer for the six structural characters, strings, numbers and the three
  literals, followed by a pushdown recogniser that builds the value. \<open>None\<close> is the
  thrown \<open>SyntaxError\<close>. A number keeps its lexeme, an object keeps its members in
  source order (property lookup takes the last occurrence of a key), and a
  \<open>\u\<close> escape is reduced to a code unit below 256.
\<close>

datatype json =
    JNull
  | JBool bool
  | JNumber string
  | JString string
  | JArray "json list"
  | JObject "(string \<times> json) list"

datatype token =
    TLBrace | TRBrace | TLBrack | TRBrack | TColon | TComma
  | TString string | TNumber string | TTrue | TFalse | TNull

definition isJsonWs :: "char \<Rightarrow> bool" where
  "isJsonWs c \<longleftrightarrow> c \<in> {CHR 0x20, CHR 0x09, CHR 0x0A, CHR 0x0D}"

definition isDigit :: "char \<Rightarrow> bool" where
  "isDigit c \<longleftrightarrow> (48::nat) \<le> of_char c \<and> (of_char c :: nat) \<le> 57"

definition hexVal :: "char \<Rightarrow> nat option" where
  "hexVal c =
     (let n = (of_char c :: nat)
      in if 48 \<le> n \<and> n \<le> 57 then Some (n - 48)
         else if 97 \<le> n \<and> n \<le> 102 then Some (n - 87)
         else if 65 \<le> n \<and> n \<le> 70 then Some (n - 55)
         else None)"

definition unescape :: "char \<Rightarrow> char option" where
  "unescape e =
     (if e = CHR 0x22 then Some (CHR 0x22)
      else if e = CHR 0x5C then Some (CHR 0x5C)
      else if e = CHR ''/'' then Some (CHR ''/'')
      else if e = CHR ''b'' then Some (CHR 0x08)
      else if e = CHR ''f'' then Some (CHR 0x0C)
      else if e = CHR ''n'' then Some (CHR 0x0A)
      else if e = CHR ''r'' then Some (CHR 0x0D)
      else if e = CHR ''t'' then Some (CHR 0x09)
      else None)"

definition hex4 :: "char \<Rightarrow> char \<Rightarrow> char \<Rightarrow> char \<Rightarrow> char option" where
  "hex4 a b c d =
     (case (hexVal a, hexVal b, hexVal c, hexVal d) of
        (Some w, Some x, Some y, Some z) \<Rightarrow> Some (char_of (((w * 16 + x) * 16 + y) * 16 + z))
      | _ \<Rightarrow> None)"

text \<open>The characters of a string literal after its opening quote, and what follows it.\<close>

fun lexString :: "string \<Rightarrow> (string \<times> string) option" where
  "lexString [] = None"
| "lexString (c # cs) =
     (if c = CHR 0x22 then Some ([], cs)
      else if c = CHR 0x5C then
        (case cs of
           [] \<Rightarrow> None
         | e # cs' \<Rightarrow>
             if e = CHR ''u'' then
               (case cs' of
                  h1 # h2 # h3 # h4 # cs'' \<Rightarrow>
                    (case hex4 h1 h2 h3 h4 of
                       None \<Rightarrow> None
                     | Some u \<Rightarrow> map_option (\<lambda>(s, r). (u # s, r)) (lexString cs''))
                | _ \<Rightarrow> None)
             else
               (case unescape e of
                  None \<Rightarrow> None
                | Some u \<Rightarrow> map_option (\<lambda>(s, r). (u # s, r)) (lexString cs')))
      else if (of_char c :: nat) < 32 then None
      else map_option (\<lambda>(s, r). (c # s, r)) (lexString cs))"

text \<open>
  A number is \<open>-? (0 | [1-9][0-9]*) (. [0-9]+)? ([eE] [+-]? [0-9]+)?\<close>. The lexer takes
  the longest run of characters that can occur in a number and checks it against this
  grammar; in a JSON text a number is followed by white space or a structural character,
  so the run is the number.
\<close>

definition isNumChar :: "char \<Rightarrow> bool" where
  "isNumChar c \<longleftrightarrow> isDigit c \<or> c \<in> {CHR ''-'', CHR ''+'', CHR ''.'', CHR ''e'', CHR ''E''}"

definition validExp :: "string \<Rightarrow> bool" where
  "validExp r =
     (case r of
        [] \<Rightarrow> True
      | c # r' \<Rightarrow>
          (c = CHR ''e'' \<or> c = CHR ''E'') \<and>
          (let ds = (case r' of d # r'' \<Rightarrow> if d = CHR ''+'' \<or> d = CHR ''-'' then r'' else r' | [] \<Rightarrow> r')
           in ds \<noteq> [] \<and> list_all isDigit ds))"

definition validFrac :: "string \<Rightarrow> bool" where
  "validFrac r =
     (case r of
        [] \<Rightarrow> True
      | c # r' \<Rightarrow>
          if c = CHR ''.'' then takeWhile isDigit r' \<noteq> [] \<and> validExp (dropWhile isDigit r')
          else validExp r)"

definition validNumber :: "string \<Rightarrow> bool" where
  "validNumber s =
     (let s1 = (case s of c # r \<Rightarrow> if c = CHR ''-'' then r else s | [] \<Rightarrow> s);
          ip = takeWhile isDigit s1
      in ip \<noteq> [] \<and> (hd ip \<noteq> CHR ''0'' \<or> length ip = 1) \<and> validFrac (dropWhile isDigit s1))"

function tokenize :: "string \<Rightarrow> token list option" where
  "tokenize [] = Some []"
| "tokenize (c # cs) =
     (if isJsonWs c then tokenize cs
      else if c = CHR ''{'' then map_option ((#) TLBrace) (tokenize cs)
      else if c = CHR ''}'' then map_option ((#) TRBrace) (tokenize cs)
      else if c = CHR ''['' then map_option ((#) TLBrack) (tokenize cs)
      else if c = CHR '']'' then map_option ((#) TRBrack) (tokenize cs)
      else if c = CHR '':'' then map_option ((#) TColon) (tokenize cs)
      else if c = CHR '','' then map_option ((#) TComma) (tokenize cs)
      else if c = CHR 0x22 then
        (case lexString cs of
           None \<Rightarrow> None
         | Some (s, r) \<Rightarrow> map_option ((#) (TString s)) (tokenize r))
      else if c = CHR ''-'' \<or> isDigit c then
        (if validNumber (takeWhile isNumChar (c # cs))
         then map_option ((#) (TNumber (takeWhile isNumChar (c # cs)))) (tokenize (dropWhile isNumChar cs))
         else None)
      else if startsWith (c # cs) ''true'' then map_option ((#) TTrue) (tokenize (drop 3 cs))
      else if startsWith (c # cs) ''false'' then map_option ((#) TFalse) (tokenize (drop 4 cs))
      else if startsWith (c # cs) ''null'' then map_option ((#) TNull) (tokenize (drop 3 cs))
      else None)"
  by pat_completeness auto

lemma lexString_shorter: "lexString cs = Some (s, r) \<Longrightarrow> length r < length cs"
proof (induction cs arbitrary: s r rule: lexString.induct)
  case 1
  then show ?case by simp
next
  case (2 c cs)
  then show ?case
    by (auto split: if_splits list.splits option.splits) fastforce+
qed

termination tokenize
  by (relation "measure length")
     (auto dest: lexString_shorter simp: le_imp_less_Suc length_dropWhile_le)

declare tokenize.simps(2) [simp del]

section \<open>Building the value from the tokens\<close>

datatype frame =
    FArr "json list"
  | FObj "(string \<times> json) list" "string option"

datatype mode = MValue | MArrFirst | MObjFirst | MKey | MColon | MAfter | MDone json

type_synonym pstate = "mode \<times> frame list"

fun valueDone :: "json \<Rightarrow> frame list \<Rightarrow> pstate option" where
  "valueDone v [] = Some (MDone v, [])"
| "valueDone v (FArr vs # st) = Some (MAfter, FArr (v # vs) # st)"
| "valueDone v (FObj kvs (Some k) # st) = Some (MAfter, FObj ((k, v) # kvs) None # st)"
| "valueDone v (FObj kvs None # st) = None"

fun beginValue :: "token \<Rightarrow> frame list \<Rightarrow> pstate option" where
  "beginValue TLBrack st = Some (MArrFirst, FArr [] # st)"
| "beginValue TLBrace st = Some (MObjFirst, FObj [] None # st)"
| "beginValue (TString s) st = valueDone (JString s) st"
| "beginValue (TNumber n) st = valueDone (JNumber n) st"
| "beginValue TTrue st = valueDone (JBool True) st"
| "beginValue TFalse st = valueDone (JBool False) st"
| "beginValue TNull st = valueDone JNull st"
| "beginValue _ st = None"

fun closeArr :: "frame list \<Rightarrow> pstate option" where
  "closeArr (FArr vs # st) = valueDone (JArray (rev vs)) st"
| "closeArr _ = None"

fun closeObj :: "frame list \<Rightarrow> pstate option" where
  "closeObj (FObj kvs None # st) = valueDone (JObject (rev kvs)) st"
| "closeObj _ = None"

fun takeKey :: "token \<Rightarrow> frame list \<Rightarrow> pstate option" where
  "takeKey (TString k) (FObj kvs None # st) = Some (MColon, FObj kvs (Some k) # st)"
| "takeKey _ _ = None"

fun afterComma :: "frame list \<Rightarrow> pstate option" where
  "afterComma (FArr vs # st) = Some (MValue, FArr vs # st)"
| "afterComma (FObj kvs None # st) = Some (MKey, FObj kvs None # st)"
| "afterComma _ = None"

fun step :: "pstate \<Rightarrow> token \<Rightarrow> pstate option" where
  "step (MValue, st) tok = beginValue tok st"
| "step (MArrFirst, st) tok = (if tok = TRBrack then closeArr st else beginValue tok st)"
| "step (MObjFirst, st) tok = (if tok = TRBrace then closeObj st else takeKey tok st)"
| "step (MKey, st) tok = takeKey tok st"
| "step (MColon, st) tok = (if tok = TColon then Some (MValue, st) else None)"
| "step (MAfter, st) tok =
     (if tok = TComma then afterComma st
      else if tok = TRBrack then closeArr st
      else if tok = TRBrace then closeObj st
      else None)"
| "step (MDone v, st) tok = None"

fun run :: "pstate \<Rightarrow> token list \<Rightarrow> pstate option" where
  "run q [] = Some q"
| "run q (t # ts) = (case step q t of None \<Rightarrow> None | Some q' \<Rightarrow> run q' ts)"

definition parseTokens :: "token list \<Rightarrow> json option" where
  "parseTokens ts = (case run (MValue, []) ts of Some (MDone v, _) \<Rightarrow> Some v | _ \<Rightarrow> None)"

definition JSON_parse :: "string \<Rightarrow> json option" where
  "JSON_parse s = (case tokenize s of None \<Rightarrow> None | Some ts \<Rightarrow> parseTokens ts)"

section \<open>The response parser of the service\<close>

text \<open>
  A thrown JavaScript value is either an \<open>Error\<close> object, of which only the
  message matters here, or some other value.
\<close>

datatype thrown = Error string | NonError string

definition msgNotJsonArray :: string where
  "msgNotJsonArray = ''The AI returned a response that does not appear to be a JSON array.''"

definition msgMalformed :: string where
  "msgMalformed = ''The AI returned a malformed response that could not be parsed. Please try simplifying your request or regenerating.''"

definition isArray :: "json \<Rightarrow> bool" where
  "isArray v = (case v of JArray xs \<Rightarrow> True | _ \<Rightarrow> False)"

definition stripped :: "string \<Rightarrow> string" where
  \<comment> \<open>The variable \<open>text\<close> of \<open>robustJsonParse\<close> once the code fences are removed.\<close>
  "stripped jsonString =
     (let text = trim jsonString
      in if startsWith text ''```json''
         then trim (slice text 7 (if endsWith text ''```'' then Some (- 3) else None))
         else if startsWith text ''```''
         then trim (slice text 3 (if endsWith text ''```'' then Some (- 3) else None))
         else text)"

definition finalAttemptStr :: "string \<Rightarrow> string" where
  "finalAttemptStr text = substring text (indexOf text CHR ''['') (lastIndexOf text CHR ''}'' + 1)"

definition potentialJson :: "string \<Rightarrow> string" where
  "potentialJson text =
     substring text (indexOf text CHR ''['') (lastIndexOf text CHR ''}'' + 1) @ '']''"

definition robustJsonParse :: "string \<Rightarrow> thrown + json" where
  "robustJsonParse jsonString =
     (let text = stripped jsonString
      in case JSON_parse text of
           Some v \<Rightarrow> Inr v
         | None \<Rightarrow>
             let startIndex = indexOf text CHR ''[''
             in if startIndex = - 1 then Inl (Error msgNotJsonArray)
                else
                  let lastBraceIndex = lastIndexOf text CHR ''}''
                  in if lastBraceIndex < startIndex then Inr (JArray [])
                     else
                       (case JSON_parse (potentialJson text) of
                          Some parsed \<Rightarrow> Inr (if isArray parsed then parsed else JArray [parsed])
                        | None \<Rightarrow>
                            (case JSON_parse (finalAttemptStr text) of
                               Some parsed \<Rightarrow> Inr (if isArray parsed then parsed else JArray [parsed])
                             | None \<Rightarrow> Inl (Error msgMalformed))))"

section \<open>The prompt builder\<close>

text \<open>
  A template literal is the list of its lines joined by line feeds; \<open>dq\<close>,
  \<open>sq\<close> and \<open>bs\<close> are the double quote, the single quote and the backslash.
\<close>

definition dq :: string where "dq = [CHR 0x22]"

definition sq :: string where "sq = [CHR 0x27]"

definition bs :: string where "bs = [CHR 0x5C]"

fun joinLines :: "string list \<Rightarrow> string" where
  "joinLines [] = []"
| "joinLines [l] = l"
| "joinLines (l # m # ls) = l @ CHR 0x0A # joinLines (m # ls)"





definition promptIntro_single :: "string list" where
  "promptIntro_single =
    [[],
     ''You are an exceptionally meticulous and detail-oriented Senior QA Engineer. Your primary '' @
     ''directive is to create the most exhaustive and comprehensive test suite possible from the '' @
     ''provided materials.'',
     [],
     ''**Your Mission:**'',
     ''Scrutinize every line, word, and detail of the provided inputs to identify every possible '' @
     ''test scenario. Your goal is to maximize the number of high-quality, relevant test cases to '' @
     ''ensure zero defects escape to production.'',
     [],
     ''**Analyze the following inputs with extreme care. Generate test cases based on the '' @
     ''information that has been provided:**'',
     []]"

definition promptTask_single :: "string list" where
  "promptTask_single =
    [[],
     ''**Your Task:**'',
     ''1.  **Read Carefully:** Perform a line-by-line analysis of the provided materials. Extract '' @
     ''every explicit and implicit requirement, user flow, and constraint from the available inputs.'',
     ''2.  **Generate Exhaustively:** Create a comprehensive list of functional and UI/UX test cases '' @
     ''that covers every single feature mentioned or inferred. Think about all possible user '' @
     ''interactions.'',
     ''3.  **Categorize by Type:** For each feature, generate a full spectrum of tests:'',
     ''    *   **Positive Test Cases:** Verify the functionality works as expected with valid inputs.'',
     ''    *   **Negative Test Cases:** Verify the system handles invalid inputs and error '' @
     ''conditions gracefully.'',
     ''    *   **Edge/Boundary Cases:** Test the limits and boundaries of input fields and system '' @
     ''constraints.'',
     ''4.  **Categorize by Domain:** Classify each test case into one of two domains:'',
     ''    *   **Functional:** Focuses on the underlying logic, business rules, calculations, and '' @
     ''functionality described in the PRD. (e.g., '' @
     dq @ ''Verify user login with correct credentials'' @ dq @ '').'',
     ''    *   **UI/UX:** Focuses on visual elements, layout, responsiveness, and user interaction '' @
     ''based on the Figma design or image. (e.g., '' @
     dq @ ''Verify the login button is blue and in the top-right corner'' @ dq @ '').'',
     ''5.  **Categorize by Suite Type:** Assign each test case to a test suite type:'',
     ''    *   **Smoke:** Critical, high-level tests that ensure the main functionalities work. '' @
     ''These are the most important tests.'',
     ''    *   **Sanity:** Tests that focus on a specific, recently changed, or new area of '' @
     ''functionality to ensure it works as expected.'',
     ''    *   **Regression:** Comprehensive tests covering existing features to ensure they were '' @
     ''not broken by new changes. Most test cases will fall into this category.'',
     ''6.  **Be Specific:** For each test case, you must provide all the fields defined in the '' @
     ''schema, including '' @
     sq @ ''domain'' @ sq @ '' and '' @ sq @ ''suiteType'' @ sq @ ''. '' @ sq @ ''Test Steps'' @ sq @
     '' must be a clear, precise, and easy-to-follow sequence of actions, separated by newlines. '' @
     sq @ ''Expected Result'' @ sq @ '' must be unambiguous.'',
     ''7.  **Ensure Uniqueness:** The '' @ sq @ ''testCaseId'' @ sq @
     '' for each case must be a simple, unique identifier following the format '' @ sq @ ''TC_XXX'' @
     sq @ '', starting from '' @ sq @ ''TC_001'' @ sq @
     '' and incrementing for each subsequent test case (e.g., TC_001, TC_002, TC_003).'',
     [],
     ''**Crucial Formatting Rule:** When generating string values for any JSON field, you MUST '' @
     ''properly escape all double quotes ('' @
     dq @ '') with a backslash (e.g., '' @ dq @ ''The user sees a message saying '' @ bs @ dq @
     ''Success!'' @ bs @ dq @ ''.'' @ dq @
     ''). This is absolutely critical for the output to be valid JSON.'',
     [],
     ''Return the output as a JSON array of objects, strictly conforming to the provided JSON '' @
     ''schema. Do not include any additional text, explanations, or markdown formatting outside of '' @
     ''the JSON array. Your response must be only the raw JSON.'',
     ''  '']"

definition promptIntro_first :: "string list" where
  "promptIntro_first =
    [[],
     ''You are an exceptionally meticulous and detail-oriented Senior QA Engineer. Your primary '' @
     ''directive is to create the most exhaustive and comprehensive test suite possible from the '' @
     ''provided materials.'',
     [],
     ''**Your Mission:**'',
     ''Scrutinize every line, word, and detail of the provided inputs to identify every possible '' @
     ''test scenario. Your goal is to maximize the number of high-quality, relevant test cases to '' @
     ''ensure zero defects escape to production.'',
     [],
     ''**Analyze the following inputs with extreme care:**'',
     [],
     ''**1. Product Requirements Document (PRD) Content:**'',
     ''---'']"

definition promptFigma_first :: "string list" where
  "promptFigma_first =
    [''---'',
     [],
     ''**2. Figma Design Link (for UI/UX reference):**'']"

definition promptTask_first :: "string list" where
  "promptTask_first =
    [[],
     ''**Your Task:**'',
     ''1.  **Read Carefully:** Perform a line-by-line analysis of the PRD. Extract every explicit '' @
     ''and implicit requirement, user flow, and constraint.'',
     ''2.  **Generate Exhaustively:** Create a comprehensive list of functional test cases that '' @
     ''covers every single feature mentioned. Think about all possible user interactions.'',
     ''3.  **Categorize Thoroughly:** For each feature, generate a full spectrum of tests:'',
     ''    *   **Positive Test Cases:** Verify the functionality works as expected with valid inputs.'',
     ''    *   **Negative Test Cases:** Verify the system handles invalid inputs and error '' @
     ''conditions gracefully.'',
     ''    *   **Edge/Boundary Cases:** Test the limits and boundaries of input fields and system '' @
     ''constraints.'',
     ''4.  **Be Specific:** For each test case, you must provide all the fields defined in the '' @
     ''schema. '' @
     sq @ ''Test Steps'' @ sq @
     '' must be a clear, precise, and easy-to-follow sequence of actions, separated by newlines. '' @
     sq @ ''Expected Result'' @ sq @ '' must be unambiguous.'',
     ''5.  **Ensure Uniqueness:** The '' @ sq @ ''Test Case ID'' @ sq @
     '' for each case must be unique (e.g., TC-FUNC-001, TC-ERR-001).'',
     [],
     ''Return the output as a JSON array of objects, strictly conforming to the provided JSON '' @
     ''schema. Do not include any additional text, explanations, or markdown formatting outside of '' @
     ''the JSON array. Your response should be nothing but the JSON.'',
     ''  '']"

definition prdHeader :: string where
  "prdHeader = ''**1. Product Requirements Document (PRD) Content:**''"

definition figmaHeader :: string where
  "figmaHeader = ''**2. Figma Design Link (for UI/UX reference):**''"

definition prdSection :: "string \<Rightarrow> string" where
  "prdSection prdText =
     (if prdText \<noteq> [] then joinLines [prdHeader, ''```'', prdText, ''```'']
      else joinLines [prdHeader, ''Not provided.''])"

definition figmaSection :: "string \<Rightarrow> string" where
  "figmaSection figmaLink =
     (if figmaLink \<noteq> [] then joinLines [figmaHeader, figmaLink]
      else joinLines [figmaHeader, ''Not provided.''])"




text \<open>The prompt of the single-image revision of the service, which has no focus section.\<close>

definition imageSection_single :: "bool \<Rightarrow> string" where
  "imageSection_single imageProvided =
     (if imageProvided then
        joinLines
          [''**3. Uploaded Image (for UI/UX and functional reference):**'',
           ''An image has been provided. Analyze it in conjunction with other provided materials '' @
           ''to understand the UI, layout, and functionality.'']
      else joinLines [''**3. Uploaded Image (for UI/UX and functional reference):**'', ''Not provided.''])"

definition createPrompt_single :: "string \<Rightarrow> string \<Rightarrow> bool \<Rightarrow> string" where
  "createPrompt_single prdText figmaLink imageProvided =
     joinLines
       (promptIntro_single @
        [prdSection prdText, [], figmaSection figmaLink, [], imageSection_single imageProvided] @
        promptTask_single)"

text \<open>
  The prompt of the first revision (\<open>services/geminiService.ts\<close>): the document text is
  always embedded, and a missing image has no section at all.
\<close>

definition imageInstruction_first :: "bool \<Rightarrow> string" where
  "imageInstruction_first imageProvided =
     (if imageProvided then
        joinLines
          [''**3. Uploaded Image (for UI/UX and functional reference):**'',
           ''An image has been provided. Analyze it in conjunction with the PRD and Figma link to '' @
           ''understand the UI, layout, and functionality.'']
      else [])"

definition createPrompt_first :: "string \<Rightarrow> string \<Rightarrow> bool \<Rightarrow> string" where
  "createPrompt_first prdText figmaLink imageProvided =
     joinLines
       (promptIntro_first @ [prdText] @ promptFigma_first @
        [if figmaLink \<noteq> [] then figmaLink
         else ''No Figma link provided. Focus solely on the PRD'' @ sq @ ''s functional requirements.'',
         [], imageInstruction_first imageProvided] @
        promptTask_first)"

section \<open>The generation service\<close>

text \<open>
  A \<open>File\<close> is what the service reads of it: its size in bytes, its MIME type and
  the data URL a \<open>FileReader\<close> produces. The hosted model is a function from the
  content parts of a request to what the call does: it throws, or it returns a response
  whose \<open>text\<close> may be undefined. The trace records the two effects of a
  call, in order: an image handed to the encoder, a request sent to the model.
\<close>

record jsFile =
  fileSize :: nat
  fileType :: string
  fileDataURL :: string

datatype part = TextPart string | InlineData "string option" string

datatype event = Encoded jsFile | Generated "part list"

datatype response = Throws thrown | Returns "string option"

fun splitOn :: "char \<Rightarrow> string \<Rightarrow> string list" where
  "splitOn c [] = [[]]"
| "splitOn c (x # xs) =
     (if x = c then [] # splitOn c xs
      else (case splitOn c xs of [] \<Rightarrow> [[x]] | y # ys \<Rightarrow> (x # y) # ys))"

definition fileToGenerativePart :: "jsFile \<Rightarrow> part" where
  \<comment> \<open>\<open>split(',')[1]\<close> of the data URL; \<open>None\<close> is \<open>undefined\<close>.\<close>
  "fileToGenerativePart f =
     InlineData (case splitOn CHR '','' (fileDataURL f) of a # b # rest \<Rightarrow> Some b | _ \<Rightarrow> None)
       (fileType f)"

text \<open>The module state: the environment variable and the lazily created client.\<close>

record env =
  API_KEY :: "string option"
  aiInstance :: "string option"

definition msgNoKey :: string where
  "msgNoKey = ''API_KEY is not configured. Please set the API_KEY environment variable in your hosting provider'' @ sq @ ''s settings.''"

definition msgNoInput :: string where
  "msgNoInput = ''Please provide at least one input: PRD text, a Figma link, or an image.''"

definition msgEmpty :: string where
  "msgEmpty = ''Received an empty response from the AI. The model may have refused to answer.''"


definition msgInvalidKey :: string where
  "msgInvalidKey = ''The configured API key is invalid. Please check your environment variables.''"


definition msgTooLarge :: string where
  "msgTooLarge = ''Image file size exceeds the 4MB limit. Please upload a smaller image.''"

definition getAiInstance :: "env \<Rightarrow> thrown + string \<times> env" where
  "getAiInstance e =
     (case aiInstance e of
        Some ai \<Rightarrow> Inr (ai, e)
      | None \<Rightarrow>
          (case API_KEY e of
             None \<Rightarrow> Inl (Error msgNoKey)
           | Some apiKey \<Rightarrow>
               if apiKey = [] then Inl (Error msgNoKey)
               else Inr (apiKey, e\<lparr>aiInstance := Some apiKey\<rparr>)))"





subsection \<open>The single-image revision\<close>

definition msgMalformed_single :: string where
  "msgMalformed_single = ''The AI returned a malformed response that could not be parsed. Please check the console for the raw output and try simplifying your request.''"

definition msgNotArray_single :: string where
  "msgNotArray_single = ''The AI response was not a valid JSON array.''"

definition msgUnknown_single :: string where
  "msgUnknown_single = ''An unknown error occurred during test case generation.''"

definition stripped_single :: "string \<Rightarrow> string" where
  "stripped_single jsonString =
     (let text = trim jsonString
      in if startsWith text ''```json'' then
           (let text = slice text 7 None
            in if endsWith text ''```'' then slice text 0 (Some (- 3)) else text)
         else if startsWith text ''```'' then
           (let text = slice text 3 None
            in if endsWith text ''```'' then slice text 0 (Some (- 3)) else text)
         else text)"

definition robustJsonParse_single :: "string \<Rightarrow> thrown + json" where
  "robustJsonParse_single jsonString =
     (let text = stripped_single jsonString
      in case JSON_parse text of
           Some v \<Rightarrow> Inr v
         | None \<Rightarrow>
             let lastComma = lastIndexOf text CHR '','';
                 lastBrace = lastIndexOf text CHR ''}'';
                 text = (if lastComma < lastBrace then substring text 0 (lastBrace + 1) @ '']''
                         else substring text 0 lastComma @ '']'')
             in (case JSON_parse text of
                   Some parsedJson \<Rightarrow> Inr parsedJson
                 | None \<Rightarrow> Inl (Error msgMalformed_single)))"

definition tryBody_single :: "response \<Rightarrow> thrown + json" where
  "tryBody_single r =
     (case r of
        Throws err \<Rightarrow> Inl err
      | Returns t \<Rightarrow>
          (case t of
             None \<Rightarrow> Inl (Error msgEmpty)
           | Some responseText \<Rightarrow>
               if responseText = [] then Inl (Error msgEmpty)
               else
                 (case robustJsonParse_single responseText of
                    Inl err \<Rightarrow> Inl err
                  | Inr parsedJson \<Rightarrow>
                      if \<not> isArray parsedJson then Inl (Error msgNotArray_single)
                      else Inr parsedJson)))"

definition onCatch_single :: "thrown \<Rightarrow> thrown" where
  "onCatch_single err =
     (case err of
        Error message \<Rightarrow>
          if includesStr message ''API key not valid'' then Error msgInvalidKey else Error message
      | NonError v \<Rightarrow> Error msgUnknown_single)"

definition generateTestCases_single ::
  "(part list \<Rightarrow> response) \<Rightarrow> env \<Rightarrow> string \<Rightarrow> string \<Rightarrow> jsFile option
     \<Rightarrow> (thrown + json) \<times> event list \<times> env" where
  "generateTestCases_single generateContent e prdText figmaLink imageFile =
     (case getAiInstance e of
        Inl err \<Rightarrow> (Inl err, [], e)
      | Inr (ai, e') \<Rightarrow>
          if trim prdText = [] \<and> trim figmaLink = [] \<and> imageFile = None
          then (Inl (Error msgNoInput), [], e')
          else
            let prompt = createPrompt_single prdText figmaLink (imageFile \<noteq> None)
            in (case imageFile of
                  Some f \<Rightarrow>
                    if 4 * 1024 * 1024 < fileSize f then (Inl (Error msgTooLarge), [], e')
                    else
                      (let parts = [TextPart prompt, fileToGenerativePart f]
                       in (case tryBody_single (generateContent parts) of
                             Inl err \<Rightarrow> (Inl (onCatch_single err), [Encoded f, Generated parts], e')
                           | Inr v \<Rightarrow> (Inr v, [Encoded f, Generated parts], e')))
                | None \<Rightarrow>
                    (let parts = [TextPart prompt]
                     in (case tryBody_single (generateContent parts) of
                           Inl err \<Rightarrow> (Inl (onCatch_single err), [Generated parts], e')
                         | Inr v \<Rightarrow> (Inr v, [Generated parts], e')))))"

subsection \<open>The first revision\<close>

text \<open>
  \<open>services/geminiService.ts\<close> builds its client when the module loads, requires the
  document text, parses the response with \<open>JSON.parse\<close> alone and replaces every
  caught error. The message of the \<open>SyntaxError\<close> of \<open>JSON.parse\<close> is the
  engine's; it is the parameter \<open>syntaxMessage\<close>.
\<close>

definition msgNoPrd :: string where
  "msgNoPrd = ''PRD content cannot be empty.''"

definition msgFailed :: string where
  "msgFailed = ''Failed to generate test cases. Please check the console for details.''"

definition tryBody_first :: "(string \<Rightarrow> string) \<Rightarrow> response \<Rightarrow> thrown + json" where
  "tryBody_first syntaxMessage r =
     (case r of
        Throws err \<Rightarrow> Inl err
      | Returns t \<Rightarrow>
          (case t of
             None \<Rightarrow> Inl (Error msgEmpty)
           | Some responseText \<Rightarrow>
               if responseText = [] then Inl (Error msgEmpty)
               else
                 (case JSON_parse responseText of
                    None \<Rightarrow> Inl (Error (syntaxMessage responseText))
                  | Some parsedJson \<Rightarrow> Inr parsedJson)))"

definition onCatch_first :: "thrown \<Rightarrow> thrown" where
  "onCatch_first err =
     (case err of
        Error message \<Rightarrow>
          if includesStr message ''API key not valid'' then Error msgInvalidKey else Error msgFailed
      | NonError v \<Rightarrow> Error msgFailed)"

definition generateTestCases_first ::
  "(string \<Rightarrow> string) \<Rightarrow> (part list \<Rightarrow> response) \<Rightarrow> string \<Rightarrow> string \<Rightarrow> jsFile option
     \<Rightarrow> (thrown + json) \<times> event list" where
  "generateTestCases_first syntaxMessage generateContent prdText figmaLink imageFile =
     (if trim prdText = [] then (Inl (Error msgNoPrd), [])
      else
        let prompt = createPrompt_first prdText figmaLink (imageFile \<noteq> None)
        in (case imageFile of
              Some f \<Rightarrow>
                if 4 * 1024 * 1024 < fileSize f then (Inl (Error msgTooLarge), [])
                else
                  (let parts = [TextPart prompt, fileToGenerativePart f]
                   in (case tryBody_first syntaxMessage (generateContent parts) of
                         Inl err \<Rightarrow> (Inl (onCatch_first err), [Encoded f, Generated parts])
                       | Inr v \<Rightarrow> (Inr v, [Encoded f, Generated parts])))
            | None \<Rightarrow>
                (let parts = [TextPart prompt]
                 in (case tryBody_first syntaxMessage (generateContent parts) of
                       Inl err \<Rightarrow> (Inl (onCatch_first err), [Generated parts])
                     | Inr v \<Rightarrow> (Inr v, [Generated parts])))))"

section \<open>Where the records are consumed\<close>

text \<open>
  A record is the member list of a parsed object; reading a property takes the last
  member of that name, and \<open>None\<close> is \<open>undefined\<close>. \<open>a || b\<close> yields \<open>b\<close> when
  \<open>a\<close> is falsy: undefined, null, false, the empty string or a zero.
\<close>

definition getProp :: "(string \<times> json) list \<Rightarrow> string \<Rightarrow> json option" where
  "getProp tc k = map_of (rev tc) k"

definition zeroLexeme :: "string \<Rightarrow> bool" where
  \<comment> \<open>A number lexeme whose mantissa has no digit but 0.\<close>
  "zeroLexeme n = list_all (\<lambda>c. \<not> isDigit c \<or> c = CHR ''0'') (takeWhile (\<lambda>c. c \<noteq> CHR ''e'' \<and> c \<noteq> CHR ''E'') n)"

definition falsy :: "json option \<Rightarrow> bool" where
  "falsy v =
     (case v of
        None \<Rightarrow> True
      | Some JNull \<Rightarrow> True
      | Some (JBool b) \<Rightarrow> \<not> b
      | Some (JString s) \<Rightarrow> s = []
      | Some (JNumber n) \<Rightarrow> zeroLexeme n
      | Some _ \<Rightarrow> False)"

definition orElse :: "json option \<Rightarrow> json \<Rightarrow> json option" where
  "orElse a b = (if falsy a then Some b else a)"

definition worksheetRow :: "(string \<times> json) list \<Rightarrow> (string \<times> json option) list" where
  \<comment> \<open>One element of \<open>worksheetData\<close> in \<open>handleDownloadExcel\<close>.\<close>
  "worksheetRow tc =
     [(''TC_ID'', getProp tc ''testCaseId''),
      (''Scenario'', getProp tc ''testScenario''),
      (''pre-condition'', getProp tc ''preConditions''),
      (''test steps'', getProp tc ''testSteps''),
      (''test data'', getProp tc ''testData''),
      (''expected result'', getProp tc ''expectedResult''),
      (''domain'', orElse (getProp tc ''domain'') (JString ''Functional'')),
      (''priority'', getProp tc ''priority''),
      (''test suite type'', orElse (getProp tc ''suiteType'') (JString ''Regression'')),
      (''type'', orElse (getProp tc ''type'') (JString ''Positive'')),
      (''status'', orElse (getProp tc ''status'') (JString ''Untested''))]"

definition withStatus :: "json \<Rightarrow> (string \<times> json) list" where
  \<comment> \<open>\<open>{...tc, status: TestCaseStatus.Untested}\<close> in \<open>handleGenerate\<close>, for an object.\<close>
  "withStatus tc = (case tc of JObject members \<Rightarrow> members @ [(''status'', JString ''Untested'')] | _ \<Rightarrow> [(''status'', JString ''Untested'')])"

section \<open>Counting occurrences\<close>

fun occurrences :: "string \<Rightarrow> string \<Rightarrow> nat" where
  \<comment> \<open>The number of positions of \<open>s\<close> at which \<open>p\<close> starts.\<close>
  "occurrences p [] = (if p = [] then 1 else 0)"
| "occurrences p (c # cs) = (if prefix p (c # cs) then 1 else 0) + occurrences p cs"


section \<open>Auxiliary notions for the proofs\<close>

definition punctToken :: "char \<Rightarrow> token option" where
  "punctToken c =
     (if c = CHR ''{'' then Some TLBrace else if c = CHR ''}'' then Some TRBrace
      else if c = CHR ''['' then Some TLBrack else if c = CHR '']'' then Some TRBrack
      else if c = CHR '':'' then Some TColon else if c = CHR '','' then Some TComma else None)"

fun bottomArr :: "pstate \<Rightarrow> bool" where
  "bottomArr (MDone v, st) = False"
| "bottomArr (m, st) = (st \<noteq> [] \<and> (\<exists>vs. last st = FArr vs))"

fun isDone :: "pstate \<Rightarrow> bool" where
  "isDone (MDone v, st) = True"
| "isDone (m, st) = False"


section \<open>Facts about the string primitives\<close>

lemma indexFrom_range:
  "indexFrom c s i = - 1 \<or> (int i \<le> indexFrom c s i \<and> indexFrom c s i < int i + int (length s))"
  by (induction s arbitrary: i) (auto, force+)

lemma indexFrom_nth:
  "indexFrom c s i \<noteq> - 1 \<Longrightarrow> s ! (nat (indexFrom c s i) - i) = c"
proof (induction s arbitrary: i)
  case Nil
  then show ?case by simp
next
  case (Cons x xs)
  show ?case
  proof (cases "x = c")
    case True
    then show ?thesis by simp
  next
    case False
    with Cons.prems have ne: "indexFrom c xs (Suc i) \<noteq> - 1" by simp
    from indexFrom_range [of c xs "Suc i"] ne
    have "int (Suc i) \<le> indexFrom c xs (Suc i)" by auto
    then have "nat (indexFrom c xs (Suc i)) - i = Suc (nat (indexFrom c xs (Suc i)) - Suc i)"
      by linarith
    with Cons.IH [OF ne] False show ?thesis by simp
  qed
qed



lemma indexOf_found:
  assumes "indexOf s c \<noteq> - 1"
  shows "0 \<le> indexOf s c" and "indexOf s c < int (length s)" and "s ! nat (indexOf s c) = c"
  using assms indexFrom_range [of c s 0] indexFrom_nth [of c s 0]
  by (auto simp: indexOf_def)

lemma lastIndexFrom_snoc:
  "lastIndexFrom c (xs @ [x]) i found =
     (if x = c then int (i + length xs) else lastIndexFrom c xs i found)"
  by (induction xs arbitrary: i found) auto

lemma lastIndexFrom_range:
  "- 1 \<le> found \<Longrightarrow> found < int i + int (length s) \<Longrightarrow>
   - 1 \<le> lastIndexFrom c s i found \<and> lastIndexFrom c s i found < int i + int (length s)"
proof (induction s arbitrary: i found)
  case Nil
  then show ?case by simp
next
  case (Cons x xs)
  have "- 1 \<le> (if x = c then int i else found)"
    and "(if x = c then int i else found) < int (Suc i) + int (length xs)"
    using Cons.prems by auto
  from Cons.IH [OF this] show ?case by simp
qed

lemma lastIndexOf_range: "- 1 \<le> lastIndexOf s c" "lastIndexOf s c < int (length s)"
  using lastIndexFrom_range [of "- 1" 0 s c] by (auto simp: lastIndexOf_def)


lemma lastIndexOf_snoc_eq: "lastIndexOf (xs @ [c]) c = int (length xs)"
  by (simp add: lastIndexOf_def lastIndexFrom_snoc)

lemma lastIndexOf_nth:
  "0 \<le> lastIndexOf s c \<Longrightarrow> s ! nat (lastIndexOf s c) = c"
proof (induction s rule: rev_induct)
  case Nil
  then show ?case by (simp add: lastIndexOf_def)
next
  case (snoc x xs)
  show ?case
  proof (cases "x = c")
    case True
    then show ?thesis by (simp add: lastIndexOf_snoc_eq)
  next
    case False
    then have eq: "lastIndexOf (xs @ [x]) c = lastIndexOf xs c"
      by (simp add: lastIndexOf_def lastIndexFrom_snoc)
    with snoc.prems have nn: "0 \<le> lastIndexOf xs c" by simp
    have "nat (lastIndexOf xs c) < length xs"
      using lastIndexOf_range(2) [of xs c] nn by linarith
    with snoc.IH [OF nn] eq show ?thesis by (simp add: nth_append)
  qed
qed


section \<open>Facts about the JSON grammar\<close>

lemma lexString_split: "lexString cs = Some (s, r) \<Longrightarrow> \<exists>p. cs = p @ CHR 0x22 # r"
proof (induction cs arbitrary: s r rule: lexString.induct)
  case 1
  then show ?case by simp
next
  case (2 c cs)
  show ?case
  proof (cases "c = CHR 0x22")
    case True
    with "2.prems" have "r = cs" by simp
    then have "c # cs = [] @ CHR 0x22 # r" using True by simp
    then show ?thesis by blast
  next
    case nq: False
    show ?thesis
    proof (cases "c = CHR 0x5C")
      case bs: True
      from "2.prems" nq bs obtain e cs' where cs: "cs = e # cs'"
        by (cases cs) auto
      show ?thesis
      proof (cases "e = CHR ''u''")
        case u: True
        from "2.prems" nq bs cs u obtain h1 h2 h3 h4 cs'' where cs': "cs' = h1 # h2 # h3 # h4 # cs''"
          by (auto split: list.splits)
        from "2.prems" nq bs cs u cs' obtain w s' where
          hx: "hex4 h1 h2 h3 h4 = Some w" and r: "lexString cs'' = Some (s', r)"
          by (auto split: option.splits)
        have "\<exists>p. cs'' = p @ CHR 0x22 # r"
          using "2.IH"(1) nq bs cs u cs' hx r by blast
        then obtain p where "cs'' = p @ CHR 0x22 # r" by blast
        then have "c # cs = (c # e # h1 # h2 # h3 # h4 # p) @ CHR 0x22 # r"
          using cs cs' by simp
        then show ?thesis by blast
      next
        case nu: False
        from "2.prems" nq bs cs nu obtain w s' where
          "unescape e = Some w" and r: "lexString cs' = Some (s', r)"
          by (auto split: option.splits)
        from "2.IH"(2) [OF nq bs cs nu this] obtain p where "cs' = p @ CHR 0x22 # r" by blast
        then have "c # cs = (c # e # p) @ CHR 0x22 # r" using cs by simp
        then show ?thesis by blast
      qed
    next
      case nbs: False
      from "2.prems" nq nbs have ctl: "\<not> (of_char c :: nat) < 32"
        by (auto split: if_splits)
      from "2.prems" nq nbs ctl obtain s' where r: "lexString cs = Some (s', r)"
        by auto
      from "2.IH"(3) [OF nq nbs ctl r] obtain p where "cs = p @ CHR 0x22 # r" by blast
      then have "c # cs = (c # p) @ CHR 0x22 # r" by simp
      then show ?thesis by blast
    qed
  qed
qed

lemma lexString_rest_last:
  assumes "lexString cs = Some (s, r)" and "last (c # cs) = CHR ''}''"
  shows "r \<noteq> [] \<and> last r = CHR ''}''"
proof -
  from lexString_split [OF assms(1)] obtain p where cs: "cs = p @ CHR 0x22 # r" by blast
  show ?thesis
  proof (cases "r = []")
    case True
    with cs assms(2) show ?thesis by simp
  next
    case False
    with cs assms(2) show ?thesis by simp
  qed
qed

lemma dropWhile_rest_last:
  assumes "last (c # cs) = x" and "\<not> P x" and "c \<noteq> x"
  shows "dropWhile P cs \<noteq> [] \<and> last (dropWhile P cs) = x"
proof -
  from assms have ne: "cs \<noteq> []" by auto
  with assms have lx: "last cs = x" by simp
  with ne have "x \<in> set cs" using last_in_set by blast
  with assms(2) have dne: "dropWhile P cs \<noteq> []" by (auto simp: dropWhile_eq_Nil_conv)
  have "cs = takeWhile P cs @ dropWhile P cs" by simp
  then have "last cs = last (dropWhile P cs)" using dne by (metis last_appendR)
  with lx dne show ?thesis by simp
qed

lemma drop_rest_last:
  assumes "startsWith (c # cs) p" and "length p = Suc n" and "last (c # cs) = x" and "x \<notin> set p"
  shows "drop n cs \<noteq> [] \<and> last (drop n cs) = x"
proof -
  from assms(1) have tk: "take (Suc n) (c # cs) = p" using assms(2) by (simp add: startsWith_def)
  have "n < length cs"
  proof (rule ccontr)
    assume "\<not> n < length cs"
    then have "take (Suc n) (c # cs) = c # cs" by simp
    with tk have "p = c # cs" by simp
    with assms(3) have "x \<in> set p" using last_in_set [of "c # cs"] by auto
    with assms(4) show False by simp
  qed
  then show ?thesis using assms(3) by (auto simp: last_drop)
qed



lemma isNumChar_brace: "\<not> isNumChar (CHR ''}'')"
  by (simp add: isNumChar_def isDigit_def)

lemma tokenize_punct:
  assumes "\<not> isJsonWs c" and "punctToken c = Some t"
  shows "tokenize (c # cs) = map_option ((#) t) (tokenize cs)"
proof -
  from assms(2) consider
      "c = CHR ''{''" "t = TLBrace" | "c = CHR ''}''" "t = TRBrace"
    | "c = CHR ''[''" "t = TLBrack" | "c = CHR '']''" "t = TRBrack"
    | "c = CHR '':''" "t = TColon" | "c = CHR '',''" "t = TComma"
    by (auto simp: punctToken_def split: if_splits)
  then show ?thesis
    by cases (simp_all add: tokenize.simps isJsonWs_def)
qed

lemma tokenize_other:
  assumes "\<not> isJsonWs c" and "punctToken c = None"
  shows "tokenize (c # cs) =
     (if c = CHR 0x22 then
        (case lexString cs of
           None \<Rightarrow> None
         | Some (s, r) \<Rightarrow> map_option ((#) (TString s)) (tokenize r))
      else if c = CHR ''-'' \<or> isDigit c then
        (if validNumber (takeWhile isNumChar (c # cs))
         then map_option ((#) (TNumber (takeWhile isNumChar (c # cs)))) (tokenize (dropWhile isNumChar cs))
         else None)
      else if startsWith (c # cs) ''true'' then map_option ((#) TTrue) (tokenize (drop 3 cs))
      else if startsWith (c # cs) ''false'' then map_option ((#) TFalse) (tokenize (drop 4 cs))
      else if startsWith (c # cs) ''null'' then map_option ((#) TNull) (tokenize (drop 3 cs))
      else None)"
proof -
  from assms(2) have "c \<noteq> CHR ''{''" "c \<noteq> CHR ''}''" "c \<noteq> CHR ''[''" "c \<noteq> CHR '']''"
    "c \<noteq> CHR '':''" "c \<noteq> CHR '',''"
    by (simp_all add: punctToken_def split: if_splits)
  with assms(1) show ?thesis by (simp only: tokenize.simps if_False)
qed

lemma tokenize_cons_cases [consumes 1, case_names skip punct str num lit]:
  assumes "tokenize (c # cs) = Some ts"
  obtains
    (skip) "isJsonWs c" "tokenize cs = Some ts"
  | (punct) t ts' where "punctToken c = Some t" "tokenize cs = Some ts'" "ts = t # ts'"
  | (str) s r ts' where "c = CHR 0x22" "lexString cs = Some (s, r)" "tokenize r = Some ts'"
      "ts = TString s # ts'"
  | (num) ts' where "c = CHR ''-'' \<or> isDigit c" "tokenize (dropWhile isNumChar cs) = Some ts'"
      "ts = TNumber (takeWhile isNumChar (c # cs)) # ts'"
  | (lit) p n t ts' where "startsWith (c # cs) p" "length p = Suc n" "CHR ''}'' \<notin> set p"
      "tokenize (drop n cs) = Some ts'" "ts = t # ts'"
proof (cases "isJsonWs c")
  case True
  with assms skip show ?thesis by (simp add: tokenize.simps)
next
  case ws: False
  show ?thesis
  proof (cases "punctToken c")
    case (Some t)
    from assms have "map_option ((#) t) (tokenize cs) = Some ts"
      by (simp only: tokenize_punct [OF ws Some])
    then obtain ts' where "tokenize cs = Some ts'" "ts = t # ts'" by auto
    with Some punct show ?thesis by blast
  next
    case None
    note eq = tokenize_other [OF ws None, of cs]
    show ?thesis
    proof (cases "c = CHR 0x22")
      case True
      with assms eq have "(case lexString cs of None \<Rightarrow> None
          | Some (s, r) \<Rightarrow> map_option ((#) (TString s)) (tokenize r)) = Some ts"
        by simp
      then obtain s r ts' where "lexString cs = Some (s, r)" "tokenize r = Some ts'"
        "ts = TString s # ts'"
        by (auto split: option.splits)
      with True str show ?thesis by blast
    next
      case nstr: False
      show ?thesis
      proof (cases "c = CHR ''-'' \<or> isDigit c")
        case True
        with assms eq nstr have "(if validNumber (takeWhile isNumChar (c # cs))
            then map_option ((#) (TNumber (takeWhile isNumChar (c # cs))))
              (tokenize (dropWhile isNumChar cs)) else None) = Some ts"
          by simp
        then obtain ts' where "tokenize (dropWhile isNumChar cs) = Some ts'"
          "ts = TNumber (takeWhile isNumChar (c # cs)) # ts'"
          by (auto split: if_splits)
        with True num show ?thesis by blast
      next
        case nnum: False
        show ?thesis
        proof (cases "startsWith (c # cs) ''true''")
          case True
          with assms eq nstr nnum have "map_option ((#) TTrue) (tokenize (drop 3 cs)) = Some ts"
            by simp
          then obtain ts' where "tokenize (drop 3 cs) = Some ts'" "ts = TTrue # ts'"
            by auto
          with True lit [of "''true''" 3 ts' TTrue] show ?thesis by simp
        next
          case nt: False
          show ?thesis
          proof (cases "startsWith (c # cs) ''false''")
            case True
            with assms eq nstr nnum nt have "map_option ((#) TFalse) (tokenize (drop 4 cs)) = Some ts"
              by simp
            then obtain ts' where "tokenize (drop 4 cs) = Some ts'" "ts = TFalse # ts'"
              by auto
            with True lit [of "''false''" 4 ts' TFalse] show ?thesis by simp
          next
            case nf: False
            with assms eq nstr nnum nt have "(if startsWith (c # cs) ''null''
                then map_option ((#) TNull) (tokenize (drop 3 cs)) else None) = Some ts"
              by simp
            then obtain ts' where "startsWith (c # cs) ''null''"
              "tokenize (drop 3 cs) = Some ts'" "ts = TNull # ts'"
              by (auto split: if_splits)
            with lit [of "''null''" 3 ts' TNull] show ?thesis by simp
          qed
        qed
      qed
    qed
  qed
qed


lemma punctToken_brace: "punctToken c = Some t \<Longrightarrow> (t = TRBrace) = (c = CHR ''}'')"
  by (auto simp: punctToken_def split: if_splits)

lemma punctToken_ws: "isJsonWs c \<Longrightarrow> c \<noteq> CHR ''}''"
  by (auto simp: isJsonWs_def)

lemma tokenize_last:
  "tokenize xs = Some ts \<Longrightarrow> xs \<noteq> [] \<Longrightarrow> last xs = CHR ''}'' \<Longrightarrow> ts \<noteq> [] \<and> last ts = TRBrace"
proof (induction "length xs" arbitrary: xs ts rule: less_induct)
  case less
  from less.prems(2) obtain c cs where xs: "xs = c # cs" by (cases xs) auto
  note lst = less.prems(3) [unfolded xs]
  have IH: "ts' \<noteq> [] \<and> last ts' = TRBrace"
    if "tokenize r = Some ts'" "length r \<le> length cs" "r \<noteq> []" "last r = CHR ''}''" for r ts'
    using less.hyps [of r ts'] that xs by simp
  from less.prems(1) [unfolded xs] show ?case
  proof (cases rule: tokenize_cons_cases)
    case skip
    from punctToken_ws [OF skip(1)] lst have "cs \<noteq> []" "last cs = CHR ''}''"
      by (auto split: if_splits)
    with IH [OF skip(2)] show ?thesis by simp
  next
    case (punct t ts')
    show ?thesis
    proof (cases "cs = []")
      case True
      with lst have "c = CHR ''}''" by simp
      with punctToken_brace [OF punct(1)] have "t = TRBrace" by simp
      moreover from True punct(2) have "ts' = []" by simp
      ultimately show ?thesis using punct(3) by simp
    next
      case False
      with lst have "last cs = CHR ''}''" by simp
      with IH [OF punct(2) _ False] punct(3) show ?thesis by simp
    qed
  next
    case (str s r ts')
    from lexString_rest_last [OF str(2) lst] have r: "r \<noteq> []" "last r = CHR ''}''" by auto
    from lexString_shorter [OF str(2)] have "length r \<le> length cs" by simp
    from IH [OF str(3) this r] str(4) show ?thesis by simp
  next
    case (num ts')
    have "c \<noteq> CHR ''}''" using num(1) by (auto simp: isDigit_def)
    from dropWhile_rest_last [where P = isNumChar, OF lst isNumChar_brace this]
    have r: "dropWhile isNumChar cs \<noteq> []" "last (dropWhile isNumChar cs) = CHR ''}''"
      by auto
    from IH [OF num(2) length_dropWhile_le r] num(3) show ?thesis by simp
  next
    case (lit p n t ts')
    from drop_rest_last [OF lit(1,2) lst lit(3)]
    have r: "drop n cs \<noteq> []" "last (drop n cs) = CHR ''}''" by auto
    have "length (drop n cs) \<le> length cs" by simp
    from IH [OF lit(4) this r] lit(5) show ?thesis by simp
  qed
qed

lemma valueDone_inv:
  "valueDone v st = Some q \<Longrightarrow> st \<noteq> [] \<Longrightarrow> \<exists>vs. last st = FArr vs \<Longrightarrow> bottomArr q"
  by (cases "(v, st)" rule: valueDone.cases) auto

lemma beginValue_inv:
  "beginValue t st = Some q \<Longrightarrow> st \<noteq> [] \<Longrightarrow> \<exists>vs. last st = FArr vs \<Longrightarrow> bottomArr q"
  by (cases "(t, st)" rule: beginValue.cases) (auto dest: valueDone_inv)

lemma closeArr_inv:
  "closeArr st = Some q \<Longrightarrow> st \<noteq> [] \<Longrightarrow> \<exists>vs. last st = FArr vs \<Longrightarrow> bottomArr q \<or> isDone q"
  by (cases st rule: closeArr.cases) (auto dest: valueDone_inv split: if_splits)

lemma closeObj_inv:
  "closeObj st = Some q \<Longrightarrow> st \<noteq> [] \<Longrightarrow> \<exists>vs. last st = FArr vs \<Longrightarrow> bottomArr q"
  by (cases st rule: closeObj.cases) (auto dest: valueDone_inv split: if_splits)

lemma takeKey_inv:
  "takeKey t st = Some q \<Longrightarrow> st \<noteq> [] \<Longrightarrow> \<exists>vs. last st = FArr vs \<Longrightarrow> bottomArr q"
  by (cases "(t, st)" rule: takeKey.cases) (auto split: if_splits)

lemma afterComma_inv:
  "afterComma st = Some q \<Longrightarrow> st \<noteq> [] \<Longrightarrow> \<exists>vs. last st = FArr vs \<Longrightarrow> bottomArr q"
  by (cases st rule: afterComma.cases) (auto split: if_splits)

lemma step_inv:
  assumes "bottomArr q" and "step q t = Some q'"
  shows "bottomArr q' \<or> (isDone q' \<and> t = TRBrack)"
proof -
  obtain m st where q: "q = (m, st)" by (cases q)
  from assms(1) q have st: "st \<noteq> []" "\<exists>vs. last st = FArr vs" by (cases m; simp)+
  show ?thesis
  proof (cases m)
    case MValue
    with assms(2) q beginValue_inv [OF _ st] show ?thesis by simp
  next
    case MArrFirst
    with assms(2) q beginValue_inv [OF _ st] closeArr_inv [OF _ st] show ?thesis
      by (auto split: if_splits)
  next
    case MObjFirst
    with assms(2) q takeKey_inv [OF _ st] closeObj_inv [OF _ st] show ?thesis
      by (auto split: if_splits)
  next
    case MKey
    with assms(2) q takeKey_inv [OF _ st] show ?thesis by simp
  next
    case MColon
    with assms(2) q st show ?thesis by (auto split: if_splits)
  next
    case MAfter
    with assms(2) q afterComma_inv [OF _ st] closeArr_inv [OF _ st] closeObj_inv [OF _ st]
    show ?thesis by (auto split: if_splits)
  next
    case (MDone v)
    with assms(2) q show ?thesis by simp
  qed
qed

lemma run_done: "isDone q \<Longrightarrow> run q ts = Some q' \<Longrightarrow> ts = []"
  by (cases q rule: isDone.cases; cases ts) auto

lemma run_inv:
  "bottomArr q \<Longrightarrow> run q ts = Some q' \<Longrightarrow> isDone q' \<Longrightarrow> ts \<noteq> [] \<and> last ts = TRBrack"
proof (induction ts arbitrary: q)
  case Nil
  then show ?case by (cases q rule: bottomArr.cases) auto
next
  case (Cons t ts)
  from Cons.prems(2) obtain q1 where s: "step q t = Some q1" and r: "run q1 ts = Some q'"
    by (auto split: option.splits)
  from step_inv [OF Cons.prems(1) s] show ?case
  proof
    assume "bottomArr q1"
    from Cons.IH [OF this r Cons.prems(3)] show ?thesis by simp
  next
    assume d: "isDone q1 \<and> t = TRBrack"
    with run_done [OF _ r] have "ts = []" by simp
    with d show ?thesis by simp
  qed
qed

lemma parseTokens_bracket:
  assumes "parseTokens (TLBrack # ts) = Some v"
  shows "ts \<noteq> [] \<and> last ts = TRBrack"
proof -
  from assms obtain st where r: "run (MArrFirst, [FArr []]) ts = Some (MDone v, st)"
    by (auto simp: parseTokens_def split: option.splits mode.splits)
  have "bottomArr (MArrFirst, [FArr []])" by simp
  from run_inv [OF this r] show ?thesis by simp
qed

lemma JSON_parse_bracket_brace:
  assumes "hd s = CHR ''[''" and "s \<noteq> []" and "last s = CHR ''}''"
  shows "JSON_parse s = None"
proof (rule ccontr)
  assume "JSON_parse s \<noteq> None"
  then obtain ts v where tk: "tokenize s = Some ts" and p: "parseTokens ts = Some v"
    by (auto simp: JSON_parse_def split: option.splits)
  from assms obtain cs where s: "s = CHR ''['' # cs" by (cases s) auto
  have "\<not> isJsonWs (CHR ''['')" by (simp add: isJsonWs_def)
  with tk s obtain ts' where ts: "ts = TLBrack # ts'"
    by (auto simp: tokenize.simps)
  from tokenize_last [OF tk assms(2,3)] have "last ts = TRBrace" by simp
  moreover from parseTokens_bracket [OF p [unfolded ts]] ts have "last ts = TRBrack" by simp
  ultimately show False by simp
qed

section \<open>The repair ladder of \<open>robustJsonParse\<close>\<close>

lemma substring_take_drop:
  assumes "0 \<le> a" and "a \<le> b" and "b \<le> int (length s)"
  shows "substring s a b = take (nat b - nat a) (drop (nat a) s)"
proof -
  from assms have m: "max a 0 = a" "max b 0 = b" by linarith+
  from assms have n: "min (nat a) (length s) = nat a" "min (nat b) (length s) = nat b"
    "min (nat a) (nat b) = nat a" "max (nat a) (nat b) = nat b" by linarith+
  show ?thesis unfolding substring_def Let_def m n ..
qed

lemma finalAttemptStr_shape:
  assumes "indexOf text CHR ''['' \<noteq> - 1"
    and "indexOf text CHR ''['' \<le> lastIndexOf text CHR ''}''"
  shows "finalAttemptStr text \<noteq> []"
    and "hd (finalAttemptStr text) = CHR ''[''"
    and "last (finalAttemptStr text) = CHR ''}''"
proof -
  let ?i = "indexOf text CHR ''[''" and ?j = "lastIndexOf text CHR ''}''"
  note i = indexOf_found [OF assms(1)]
  from i(1) assms(2) have j0: "0 \<le> ?j" by simp
  note jn = lastIndexOf_nth [OF j0]
  have jl: "?j < int (length text)" by (rule lastIndexOf_range)
  have eq: "finalAttemptStr text = take (nat (?j + 1) - nat ?i) (drop (nat ?i) text)"
    unfolding finalAttemptStr_def using i(1) assms(2) jl
    by (intro substring_take_drop) auto
  have len: "nat ?i \<le> nat ?j" "nat ?j < length text" using i(1) assms(2) jl j0 by linarith+
  then have n: "nat (?j + 1) - nat ?i = Suc (nat ?j - nat ?i)" using j0 by linarith
  from len have dne: "drop (nat ?i) text \<noteq> []" by simp
  show "finalAttemptStr text \<noteq> []" using eq n dne by simp
  show "hd (finalAttemptStr text) = CHR ''[''"
    using eq n dne i(3) len by (simp add: hd_drop_conv_nth)
  have "last (take (Suc (nat ?j - nat ?i)) (drop (nat ?i) text)) = drop (nat ?i) text ! (nat ?j - nat ?i)"
    using len by (simp add: take_Suc_conv_app_nth)
  also have "\<dots> = text ! nat ?j" using len by simp
  finally show "last (finalAttemptStr text) = CHR ''}''" using eq n jn by simp
qed

lemma finalAttempt_fails:
  assumes "indexOf text CHR ''['' \<noteq> - 1"
    and "indexOf text CHR ''['' \<le> lastIndexOf text CHR ''}''"
  shows "JSON_parse (finalAttemptStr text) = None"
  using finalAttemptStr_shape [OF assms] by (intro JSON_parse_bracket_brace) auto


lemma startsWith_prefix: "startsWith s p \<longleftrightarrow> prefix p s"
proof
  assume "startsWith s p"
  then have "p = take (length p) s" by (simp add: startsWith_def)
  then show "prefix p s" using take_is_prefix [of "length p" s] by simp
next
  assume "prefix p s"
  then show "startsWith s p" by (auto simp: prefix_def startsWith_def)
qed





section \<open>Code fences\<close>











section \<open>Facts about the service\<close>


lemma includesStr_sublist: "includesStr s p \<longleftrightarrow> sublist p s"
  by (induction s) (auto simp: startsWith_prefix sublist_Cons_right)




section \<open>The claims\<close>







text \<open>
  Claim C3. When the direct parse of the stripped text fails, a candidate exists (the
  text has a \<open>[\<close> and a \<open>}\<close> at or after it) and the parse of the candidate,
  the text from the first \<open>[\<close> through the last \<open>}\<close> with \<open>]\<close> appended, fails too,
  \<open>robustJsonParse\<close> throws the malformed-response error, which differs from the
  not-an-array error, and returns nothing. The last attempt of the code, the same slice
  without the \<open>]\<close>, starts with \<open>[\<close> and ends with \<open>}\<close>, so it never parses.
\<close>

theorem robustJsonParse_unrecoverable:
  assumes "JSON_parse (stripped s) = None"
    and "indexOf (stripped s) CHR ''['' \<noteq> - 1"
    and "indexOf (stripped s) CHR ''['' \<le> lastIndexOf (stripped s) CHR ''}''"
    and "JSON_parse (potentialJson (stripped s)) = None"
  shows "robustJsonParse s = Inl (Error msgMalformed) \<and> msgMalformed \<noteq> msgNotJsonArray"
proof -
  have "JSON_parse (finalAttemptStr (stripped s)) = None"
    using assms(2,3) by (rule finalAttempt_fails)
  with assms have "robustJsonParse s = Inl (Error msgMalformed)"
    by (simp add: robustJsonParse_def Let_def)
  moreover have "msgMalformed \<noteq> msgNotJsonArray"
    by (simp add: msgMalformed_def msgNotJsonArray_def)
  ultimately show ?thesis by simp
qed

theorem robustJsonParse_unrecoverable_witness:
  "JSON_parse (stripped ''[{},{{}'') = None
   \<and> indexOf (stripped ''[{},{{}'') CHR ''['' \<noteq> - 1
   \<and> indexOf (stripped ''[{},{{}'') CHR ''['' \<le> lastIndexOf (stripped ''[{},{{}'') CHR ''}''
   \<and> JSON_parse (potentialJson (stripped ''[{},{{}'')) = None
   \<and> robustJsonParse ''[{},{{}'' = Inl (Error msgMalformed)"
proof -
  have 1: "JSON_parse (stripped ''[{},{{}'') = None" by code_simp
  have 2: "indexOf (stripped ''[{},{{}'') CHR ''['' \<noteq> - 1" by code_simp
  have 3: "indexOf (stripped ''[{},{{}'') CHR ''['' \<le> lastIndexOf (stripped ''[{},{{}'') CHR ''}''"
    by code_simp
  have 4: "JSON_parse (potentialJson (stripped ''[{},{{}'')) = None" by code_simp
  from robustJsonParse_unrecoverable [OF 1 2 3 4] 1 2 3 4 show ?thesis by simp
qed







end
